theory Spec2Isabelle
  imports Complex_Main
begin

section \<open>Data model\<close>

text \<open>
  The Python exceptions the functions of \<^verbatim>\<open>src/utils.py\<close> can leave with.
  \<open>ValueError\<close> is Python's invalid-argument exception; \<open>UnboundLocalError\<close> is what
  reading a local variable that no branch assigned raises; \<open>RuntimeError\<close> and
  \<open>IndexError\<close> are what the array engine raises.
\<close>

datatype error = ValueError | RuntimeError | IndexError | UnboundLocalError

text \<open>
  A query batch is a 3-dimensional array of shape \<open>(dim0, dim1, dim2)\<close> =
  \<open>(num_queries, batch_size, input_dim)\<close>, stored row-major in \<open>data\<close>.
  A 2-dimensional array of shape \<open>(nrows, ncols)\<close> is stored the same way in \<open>elems\<close>.
  A 1-dimensional array is a list. The element type is left open.
\<close>

record 'a tensor3 =
  dim0 :: nat
  dim1 :: nat
  dim2 :: nat
  data :: "'a list"

record 'a tensor2 =
  nrows :: nat
  ncols :: nat
  elems :: "'a list"

text \<open>\<^verbatim>\<open>queries[i, j, :]\<close>: the point \<open>j\<close> of query \<open>i\<close>.\<close>

definition point :: "'a tensor3 \<Rightarrow> nat \<Rightarrow> nat \<Rightarrow> 'a list" where
  "point queries i j = take (dim2 queries) (drop ((i * dim1 queries + j) * dim2 queries) (data queries))"

text \<open>Row \<open>k\<close> of a 2-dimensional array.\<close>

definition row :: "'a tensor2 \<Rightarrow> nat \<Rightarrow> 'a list" where
  "row t k = take (ncols t) (drop (k * ncols t) (elems t))"

text \<open>\<^verbatim>\<open>responses[i]\<close> on a 1-dimensional array: out of range raises.\<close>

definition getitem :: "'b list \<Rightarrow> nat \<Rightarrow> error + 'b" where
  "getitem xs i = (if i < length xs then Inr (xs ! i) else Inl IndexError)"

text \<open>\<^verbatim>\<open>torch.cat(rows, dim=0)\<close> of a list of one-row arrays: the empty list raises.\<close>

definition torch_cat :: "'b list \<Rightarrow> error + 'b list" where
  "torch_cat rows = (if rows = [] then Inl RuntimeError else Inr rows)"

section \<open>Comparison-data encoder\<close>

text \<open>
  The inner loop \<^verbatim>\<open>for j in range(batch_size)\<close> of
  \<^verbatim>\<open>training_data_for_pairwise_gp\<close>, over the two lists it appends to.
\<close>

fun inner_loop ::
  "'a tensor3 \<Rightarrow> nat \<Rightarrow> int \<Rightarrow> int \<Rightarrow> nat list \<Rightarrow>
   'a list list \<times> (int \<times> int) list \<Rightarrow> 'a list list \<times> (int \<times> int) list" where
  "inner_loop queries i r best_item_id [] acc = acc"
| "inner_loop queries i r best_item_id (j # js) (datapoints, comparisons) =
     inner_loop queries i r best_item_id js
       (datapoints @ [point queries i j],
        if int j \<noteq> r
        then comparisons @ [(best_item_id, int (dim1 queries) * int i + int j)]
        else comparisons)"

text \<open>The outer loop \<^verbatim>\<open>for i in range(num_queries)\<close>.\<close>

fun outer_loop ::
  "'a tensor3 \<Rightarrow> int list \<Rightarrow> nat list \<Rightarrow>
   'a list list \<times> (int \<times> int) list \<Rightarrow> error + 'a list list \<times> (int \<times> int) list" where
  "outer_loop queries responses [] acc = Inr acc"
| "outer_loop queries responses (i # is) acc =
     (case getitem responses i of
        Inl e \<Rightarrow> Inl e
      | Inr r \<Rightarrow>
          (let best_item_id = int (dim1 queries) * int i + r
           in outer_loop queries responses is
                (inner_loop queries i r best_item_id [0..<dim1 queries] acc)))"

definition training_data_for_pairwise_gp ::
  "'a tensor3 \<Rightarrow> int list \<Rightarrow> error + 'a list list \<times> (int \<times> int) list" where
  "training_data_for_pairwise_gp queries responses =
     (let num_queries = dim0 queries
      in case outer_loop queries responses [0..<num_queries] ([], []) of
           Inl e \<Rightarrow> Inl e
         | Inr (datapoints, comparisons) \<Rightarrow>
             (case torch_cat datapoints of
                Inl e \<Rightarrow> Inl e
              | Inr datapoints' \<Rightarrow>
                  (case torch_cat comparisons of
                     Inl e \<Rightarrow> Inl e
                   | Inr comparisons' \<Rightarrow> Inr (datapoints', comparisons'))))"

section \<open>Query sampler\<close>

text \<open>
  The engine keeps one random generator per device. \<open>default_gen\<close> is the state of the
  default generator, the one on which \<^verbatim>\<open>torch.rand\<close> draws here and the one that
  \<^verbatim>\<open>torch.random.get_rng_state\<close> and \<^verbatim>\<open>torch.random.set_rng_state\<close> read and write;
  \<open>device_gens\<close> are the states of the generators of the other devices.
\<close>

record ('g, 'h) generators =
  default_gen :: 'g
  device_gens :: "'h list"

text \<open>
  What the engine provides: the state a seed puts the default generator in (or the
  error on a seed it does not accept), the state a seed puts a device's generator in,
  one uniform draw as a step on the default generator, and the number of elements it
  can allocate.
\<close>

record ('a, 'g, 'h) engine =
  manual_seed_state :: "int \<Rightarrow> error + 'g"
  device_seed_state :: "int \<Rightarrow> 'h"
  uniform_step :: "'g \<Rightarrow> 'a \<times> 'g"
  capacity :: nat

text \<open>\<open>draws\<close> takes \<open>k\<close> values in a row from a generator.\<close>

fun draws :: "('g \<Rightarrow> 'a \<times> 'g) \<Rightarrow> nat \<Rightarrow> 'g \<Rightarrow> 'a list \<times> 'g" where
  "draws step 0 g = ([], g)"
| "draws step (Suc k) g =
     (case step g of
        (x, g1) \<Rightarrow> (case draws step k g1 of (xs, g2) \<Rightarrow> (x # xs, g2)))"

text \<open>
  \<^verbatim>\<open>torch.rand([n, b, d])\<close> on the default generator. A negative size raises; so does
  a size or a number of elements that does not fit a signed 64-bit integer, and a
  number of elements the engine cannot allocate; nothing is drawn then. Any other
  shape (a zero size included) is filled from the generator.
\<close>

definition torch_rand ::
  "nat \<Rightarrow> ('g \<Rightarrow> 'a \<times> 'g) \<Rightarrow> int \<Rightarrow> int \<Rightarrow> int \<Rightarrow> 'g \<Rightarrow> (error + 'a tensor3) \<times> 'g" where
  "torch_rand cap step n b d g =
     (if n < 0 \<or> b < 0 \<or> d < 0 then (Inl RuntimeError, g)
      else if 2 ^ 63 \<le> n \<or> 2 ^ 63 \<le> b \<or> 2 ^ 63 \<le> d \<or> 2 ^ 63 \<le> n * b * d
              \<or> cap < nat n * nat b * nat d
      then (Inl RuntimeError, g)
      else case draws step (nat n * nat b * nat d) g of
             (xs, g') \<Rightarrow> (Inr \<lparr>dim0 = nat n, dim1 = nat b, dim2 = nat d, data = xs\<rparr>, g'))"

text \<open>
  \<^verbatim>\<open>torch.manual_seed(seed)\<close> seeds the generators of all devices: a seed the engine
  does not accept raises and changes nothing.
\<close>

definition torch_manual_seed ::
  "('a, 'g, 'h) engine \<Rightarrow> int \<Rightarrow> ('g, 'h) generators \<Rightarrow> (error + unit) \<times> ('g, 'h) generators" where
  "torch_manual_seed E s G =
     (case manual_seed_state E s of
        Inl e \<Rightarrow> (Inl e, G)
      | Inr g1 \<Rightarrow>
          (Inr (), \<lparr>default_gen = g1,
                    device_gens = map (\<lambda>h. device_seed_state E s) (device_gens G)\<rparr>))"

text \<open>
  \<^verbatim>\<open>generate_random_queries\<close>. The argument \<open>G\<close> holds the generators on entry and the
  second component of the result holds them on exit. \<open>old_state\<close> is what
  \<^verbatim>\<open>torch.random.get_rng_state()\<close> returns, the state of the default generator, and
  \<^verbatim>\<open>torch.random.set_rng_state(old_state)\<close> writes it back to the default generator.
  An exception of \<^verbatim>\<open>torch.manual_seed\<close> or of \<^verbatim>\<open>torch.rand\<close> leaves the function at
  once, in the second case before the state is written back.
\<close>

definition generate_random_queries ::
  "('a, 'g, 'h) engine \<Rightarrow> int \<Rightarrow> int \<Rightarrow> int \<Rightarrow> int option \<Rightarrow> ('g, 'h) generators \<Rightarrow>
   (error + 'a tensor3) \<times> ('g, 'h) generators" where
  "generate_random_queries E num_queries batch_size input_dim seed G =
     (case seed of
        Some s \<Rightarrow>
          (let old_state = default_gen G
           in case torch_manual_seed E s G of
                (Inl e, G1) \<Rightarrow> (Inl e, G1)
              | (Inr u, G1) \<Rightarrow>
                  (case torch_rand (capacity E) (uniform_step E) num_queries batch_size input_dim
                          (default_gen G1) of
                     (Inl e, g2) \<Rightarrow> (Inl e, G1\<lparr>default_gen := g2\<rparr>)
                   | (Inr queries, g2) \<Rightarrow> (Inr queries, G1\<lparr>default_gen := old_state\<rparr>)))
      | None \<Rightarrow>
          (case torch_rand (capacity E) (uniform_step E) num_queries batch_size input_dim
                  (default_gen G) of
             (result, g2) \<Rightarrow> (result, G\<lparr>default_gen := g2\<rparr>)))"

section \<open>Objective evaluator\<close>

text \<open>
  \<^verbatim>\<open>x.reshape(torch.Size([r, c]))\<close> of an array with row-major elements \<open>xs\<close>: the
  elements stay in place, and a shape of another size raises.
\<close>

definition reshape :: "'b list \<Rightarrow> nat \<Rightarrow> nat \<Rightarrow> error + 'b tensor2" where
  "reshape xs r c =
     (if length xs = r * c then Inr \<lparr>nrows = r, ncols = c, elems = xs\<rparr> else Inl RuntimeError)"

text \<open>
  \<^verbatim>\<open>get_obj_vals\<close>. The objective function is the caller's: it takes the flattened
  \<open>(num_queries * batch_size, input_dim)\<close> array and returns the elements of its result,
  or raises.
\<close>

definition get_obj_vals ::
  "'a tensor3 \<Rightarrow> ('a tensor2 \<Rightarrow> error + 'b list) \<Rightarrow> error + 'b tensor2" where
  "get_obj_vals queries obj_func =
     (case reshape (data queries) (dim0 queries * dim1 queries) (dim2 queries) of
        Inl e \<Rightarrow> Inl e
      | Inr queries_2d \<Rightarrow>
          (case obj_func queries_2d of
             Inl e \<Rightarrow> Inl e
           | Inr obj_vals \<Rightarrow> reshape obj_vals (dim0 queries) (dim1 queries)))"

text \<open>
  An objective function of the kind the evaluator's consistency property is about: a
  fixed per-point function \<open>f\<close> applied to every row of an \<open>(M, d)\<close> array, giving the
  \<open>M\<close> values in row order.
\<close>

definition pointwise :: "('a list \<Rightarrow> 'b) \<Rightarrow> 'a tensor2 \<Rightarrow> error + 'b list" where
  "pointwise f t = Inr (map (\<lambda>k. f (row t k)) [0..<nrows t])"

text \<open>Entry \<open>(i, j)\<close> of a 2-dimensional array.\<close>

definition entry :: "'b tensor2 \<Rightarrow> nat \<Rightarrow> nat \<Rightarrow> 'b" where
  "entry t i j = elems t ! (i * ncols t + j)"

section \<open>Response simulator\<close>

text \<open>
  \<^verbatim>\<open>torch.argmax\<close> along one axis: a left-to-right scan that keeps the best index seen
  and moves only to a strictly greater value, so the first maximal value wins. The
  values are taken from a linear order (no NaN).
\<close>

fun argmax_scan :: "nat \<Rightarrow> 'v::linorder \<Rightarrow> nat \<Rightarrow> 'v list \<Rightarrow> nat" where
  "argmax_scan best bv k [] = best"
| "argmax_scan best bv k (x # xs) =
     (if bv < x then argmax_scan k x (Suc k) xs else argmax_scan best bv (Suc k) xs)"

text \<open>\<^verbatim>\<open>torch.argmax(xs, dim=0)\<close> of a 1-dimensional array: an empty axis raises.\<close>

definition torch_argmax :: "'v::linorder list \<Rightarrow> error + nat" where
  "torch_argmax xs = (case xs of [] \<Rightarrow> Inl IndexError | x # rest \<Rightarrow> Inr (argmax_scan 0 x 1 rest))"

text \<open>\<^verbatim>\<open>torch.argmax(t, dim=-1)\<close> of a 2-dimensional array: one index per row.\<close>

fun argmax_rows :: "'v::linorder list list \<Rightarrow> error + nat list" where
  "argmax_rows [] = Inr []"
| "argmax_rows (r # rs) =
     (case torch_argmax r of
        Inl e \<Rightarrow> Inl e
      | Inr k \<Rightarrow> (case argmax_rows rs of Inl e \<Rightarrow> Inl e | Inr ks \<Rightarrow> Inr (k # ks)))"

definition argmax_last_dim :: "'v::linorder tensor2 \<Rightarrow> error + nat list" where
  "argmax_last_dim t =
     (if ncols t = 0 then Inl IndexError else argmax_rows (map (row t) [0..<nrows t]))"

text \<open>
  \<^verbatim>\<open>dist.sample(sample_shape=obj_vals.shape)\<close>: one draw of the distribution per entry,
  from the global generator. \<^verbatim>\<open>obj_vals + noise\<close> adds entry by entry.
\<close>

definition sample :: "('g \<Rightarrow> 'a \<times> 'g) \<Rightarrow> 'a tensor2 \<Rightarrow> 'g \<Rightarrow> 'a list \<times> 'g" where
  "sample draw obj_vals g = draws draw (nrows obj_vals * ncols obj_vals) g"

definition add_noise :: "'a::plus tensor2 \<Rightarrow> 'a list \<Rightarrow> 'a tensor2" where
  "add_noise obj_vals noise = obj_vals\<lparr>elems := map2 (+) (elems obj_vals) noise\<rparr>"

text \<open>
  \<^verbatim>\<open>corrupt_obj_vals\<close>. \<open>Normal\<close> and \<open>Gumbel\<close> are the engine's distribution
  constructors at location 0 and scale \<open>noise_level\<close>: each gives the distribution's
  draw step, or raises on a scale it does not accept. When no branch of the chain is
  taken, nothing assigns \<^verbatim>\<open>corrupted_obj_vals\<close> and the \<^verbatim>\<open>return\<close> statement reads
  an unassigned local.
\<close>

definition corrupt_obj_vals ::
  "('l \<Rightarrow> error + ('g \<Rightarrow> 'a \<times> 'g)) \<Rightarrow> ('l \<Rightarrow> error + ('g \<Rightarrow> 'a \<times> 'g)) \<Rightarrow>
   'a::plus tensor2 \<Rightarrow> string \<Rightarrow> 'l \<Rightarrow> 'g \<Rightarrow> (error + 'a tensor2) \<times> 'g" where
  "corrupt_obj_vals Normal Gumbel obj_vals noise_type noise_level g =
     (if noise_type = ''noiseless'' then (Inr obj_vals, g)
      else if noise_type = ''probit'' then
        (case Normal noise_level of
           Inl e \<Rightarrow> (Inl e, g)
         | Inr normal \<Rightarrow>
             (case sample normal obj_vals g of
                (noise, g') \<Rightarrow> (Inr (add_noise obj_vals noise), g')))
      else if noise_type = ''logit'' then
        (case Gumbel noise_level of
           Inl e \<Rightarrow> (Inl e, g)
         | Inr gumbel \<Rightarrow>
             (case sample gumbel obj_vals g of
                (noise, g') \<Rightarrow> (Inr (add_noise obj_vals noise), g')))
      else (Inl UnboundLocalError, g))"

definition generate_responses ::
  "('l \<Rightarrow> error + ('g \<Rightarrow> 'a \<times> 'g)) \<Rightarrow> ('l \<Rightarrow> error + ('g \<Rightarrow> 'a \<times> 'g)) \<Rightarrow>
   'a::{plus,linorder} tensor2 \<Rightarrow> string \<Rightarrow> 'l \<Rightarrow> 'g \<Rightarrow> (error + nat list) \<times> 'g" where
  "generate_responses Normal Gumbel obj_vals noise_type noise_level g =
     (case corrupt_obj_vals Normal Gumbel obj_vals noise_type noise_level g of
        (Inl e, g') \<Rightarrow> (Inl e, g')
      | (Inr corrupted_obj_vals, g') \<Rightarrow> (argmax_last_dim corrupted_obj_vals, g'))"

section \<open>Model fitter\<close>

text \<open>
  The model classes and the fitting routine that \<^verbatim>\<open>fit_model\<close> calls are the
  caller's collaborators: the two likelihood objects, the constructor of the pairwise
  Gaussian process (datapoints, comparisons, likelihood, jitter), the constructor of the
  Laplace marginal log-likelihood, the hyperparameter fit (which returns the fitted
  model), the cast \<^verbatim>\<open>model.to(device, dtype)\<close> to the queries' device and precision,
  and the constructor of the variational model. Each constructor may raise.
\<close>

record ('a, 'lik, 'mll, 'm) collaborators =
  PairwiseProbitLikelihood :: 'lik
  PairwiseLogitLikelihood :: 'lik
  PairwiseGP :: "'a list list \<Rightarrow> (int \<times> int) list \<Rightarrow> 'lik \<Rightarrow> rat \<Rightarrow> error + 'm"
  PairwiseLaplaceMarginalLogLikelihood :: "'lik \<Rightarrow> 'm \<Rightarrow> error + 'mll"
  fit_gpytorch_model :: "'mll \<Rightarrow> error + 'm"
  to_device_dtype :: "'m \<Rightarrow> 'a tensor3 \<Rightarrow> error + 'm"
  PairwiseKernelVariationalGP :: "'a tensor3 \<Rightarrow> int list \<Rightarrow> error + 'm"

text \<open>
  \<^verbatim>\<open>fit_model\<close>. \<open>likelihood_func\<close> is \<open>None\<close> when neither likelihood branch assigned
  the local; the call of the constructor then reads an unassigned local, after the
  training data were encoded. When no branch of the outer chain is taken, the
  \<^verbatim>\<open>return\<close> statement reads the unassigned \<^verbatim>\<open>model\<close>.
\<close>

definition fit_model ::
  "('a, 'lik, 'mll, 'm) collaborators \<Rightarrow> 'a tensor3 \<Rightarrow> int list \<Rightarrow> string \<Rightarrow> string option \<Rightarrow>
   error + 'm" where
  "fit_model C queries responses model_type likelihood =
     (if model_type = ''pairwise_gp'' then
        (let likelihood_func =
               (if likelihood = Some ''probit'' then Some (PairwiseProbitLikelihood C)
                else if likelihood = Some ''logit'' then Some (PairwiseLogitLikelihood C)
                else None)
         in case training_data_for_pairwise_gp queries responses of
              Inl e \<Rightarrow> Inl e
            | Inr (datapoints, comparisons) \<Rightarrow>
                (case likelihood_func of
                   None \<Rightarrow> Inl UnboundLocalError
                 | Some lf \<Rightarrow>
                     (case PairwiseGP C datapoints comparisons lf (1 / 10000) of
                        Inl e \<Rightarrow> Inl e
                      | Inr model \<Rightarrow>
                          (case PairwiseLaplaceMarginalLogLikelihood C lf model of
                             Inl e \<Rightarrow> Inl e
                           | Inr mll \<Rightarrow>
                               (case fit_gpytorch_model C mll of
                                  Inl e \<Rightarrow> Inl e
                                | Inr fitted \<Rightarrow> to_device_dtype C fitted queries)))))
      else if model_type = ''pairwise_kernel_variational_gp'' then
        PairwiseKernelVariationalGP C queries responses
      else Inl UnboundLocalError)"

section \<open>Candidate optimizer\<close>

text \<open>
  An array together with its gradient-tracking flag; \<^verbatim>\<open>x.detach()\<close> is the same array
  outside of gradient tracking.
\<close>

record 't variable =
  payload :: 't
  requires_grad :: bool

definition detach :: "'t variable \<Rightarrow> 't variable" where
  "detach v = v\<lparr>requires_grad := False\<rparr>"

text \<open>
  The keyword arguments of the call of the multi-start optimizer; \<open>options_method\<close> is
  the entry \<^verbatim>\<open>"method"\<close> of its options and \<open>maxiter\<close>, \<open>nonnegative\<close>, \<open>batch_limit\<close>,
  \<open>init_batch_limit\<close> the other entries.
\<close>

record ('a, 'f) optimize_acqf_args =
  acq_function :: 'f
  bounds :: "'a tensor2"
  q :: int
  num_restarts :: nat
  raw_samples :: nat
  batch_limit :: "int option"
  init_batch_limit :: "int option"
  maxiter :: nat
  nonnegative :: bool
  options_method :: string
  return_best_only :: bool

text \<open>\<^verbatim>\<open>candidates[k]\<close>: the \<open>k\<close>-th batch of a \<open>(restarts, q, d)\<close> array.\<close>

definition select0 :: "'a tensor3 \<Rightarrow> nat \<Rightarrow> error + 'a tensor2" where
  "select0 t k =
     (if k < dim0 t
      then Inr \<lparr>nrows = dim1 t, ncols = dim2 t,
                elems = take (dim1 t * dim2 t) (drop (k * (dim1 t * dim2 t)) (data t))\<rparr>
      else Inl IndexError)"

text \<open>
  The optimizer library's \<^verbatim>\<open>get_best_candidates\<close>: the batch at the arg-max of the
  flattened values.
\<close>

definition get_best_candidates ::
  "'a tensor3 variable \<Rightarrow> 'v::linorder list \<Rightarrow> error + 'a tensor2 variable" where
  "get_best_candidates batch_candidates batch_values =
     (case torch_argmax batch_values of
        Inl e \<Rightarrow> Inl e
      | Inr best \<Rightarrow>
          (case select0 (payload batch_candidates) best of
             Inl e \<Rightarrow> Inl e
           | Inr x \<Rightarrow> Inr \<lparr>payload = x, requires_grad = requires_grad batch_candidates\<rparr>))"

text \<open>
  The diagnostic lines sort the values and print \<^verbatim>\<open>candidates[indices]\<close>, where
  \<open>indices\<close> is a permutation of the positions of the values: the gather raises when a
  position is not a batch of the candidates. What is printed is not part of the result.
\<close>

definition print_diagnostics :: "'a tensor3 \<Rightarrow> 'v list \<Rightarrow> error + unit" where
  "print_diagnostics candidates acq_values =
     (if length acq_values \<le> dim0 candidates then Inr () else Inl IndexError)"

definition optimize_acqf_and_get_suggested_query ::
  "(('a, 'f) optimize_acqf_args \<Rightarrow> error + 'a tensor3 variable \<times> 'v::linorder list) \<Rightarrow>
   'f \<Rightarrow> 'a tensor2 \<Rightarrow> int \<Rightarrow> int option \<Rightarrow> int option \<Rightarrow> error + 'a tensor2 variable" where
  "optimize_acqf_and_get_suggested_query optimize_acqf acq_func bnds batch_size
       batch_lim init_batch_lim =
     (let input_dim = ncols bnds;
          q' = batch_size;
          raw = 120 * input_dim;
          restarts = 4 * input_dim
      in case optimize_acqf
                \<lparr>acq_function = acq_func, bounds = bnds, q = q', num_restarts = restarts,
                 raw_samples = raw, batch_limit = batch_lim,
                 init_batch_limit = init_batch_lim, maxiter = 100, nonnegative = False,
                 options_method = ''L-BFGS-B'', return_best_only = False\<rparr> of
           Inl e \<Rightarrow> Inl e
         | Inr (candidates, acq_values) \<Rightarrow>
             (let candidates' = detach candidates
              in case print_diagnostics (payload candidates') acq_values of
                   Inl e \<Rightarrow> Inl e
                 | Inr u \<Rightarrow> get_best_candidates candidates' acq_values))"

section \<open>Reference forms and sample inputs\<close>

text \<open>
  The comparisons one query contributes, in the words of the encoder's contract: for
  query \<open>i\<close> of batch size \<open>B\<close>, the pair (winner row, row of item \<open>j\<close>) for every item
  \<open>j\<close> other than the response, in item order.
\<close>

definition query_pairs :: "nat \<Rightarrow> int list \<Rightarrow> nat \<Rightarrow> (int \<times> int) list" where
  "query_pairs B responses i =
     map (\<lambda>j. (int (i * B) + responses ! i, int (i * B + j)))
       (filter (\<lambda>j. int j \<noteq> responses ! i) [0..<B])"

text \<open>Two small query batches: two queries of two points, and one query of one point.\<close>

definition Q22 :: "int tensor3" where
  "Q22 = \<lparr>dim0 = 2, dim1 = 2, dim2 = 1, data = [10, 20, 30, 40]\<rparr>"

definition Q11 :: "int tensor3" where
  "Q11 = \<lparr>dim0 = 1, dim1 = 1, dim2 = 1, data = [10]\<rparr>"

text \<open>
  A sample engine for concrete evaluations: a small linear congruential step on \<open>nat\<close>
  states, a seeding that accepts the engine's range of seeds, room for 1000 elements,
  and generators that start in state 7 (default) and 9 (one other device). The noise
  distribution rejects a non-positive scale.
\<close>

definition lcg_engine :: "(int, nat, nat) engine" where
  "lcg_engine =
     \<lparr>manual_seed_state =
        (\<lambda>s. if - (2 ^ 63) \<le> s \<and> s < 2 ^ 64 then Inr (nat (s mod 65537)) else Inl RuntimeError),
      device_seed_state = (\<lambda>s. nat (s mod 251)),
      uniform_step = (\<lambda>g. (int (g mod 10), (75 * g + 74) mod 65537)),
      capacity = 1000\<rparr>"

definition lcg_generators :: "(nat, nat) generators" where
  "lcg_generators = \<lparr>default_gen = 7, device_gens = [9]\<rparr>"

definition lcg_noise :: "int \<Rightarrow> error + (nat \<Rightarrow> int \<times> nat)" where
  "lcg_noise scale =
     (if scale \<le> 0 then Inl ValueError
      else Inr (\<lambda>g. (scale * (int (g mod 10) - 5), (75 * g + 74) mod 65537)))"

text \<open>
  The shape is one \<^verbatim>\<open>torch.rand\<close> fills: no size is negative, sizes and number of
  elements fit a signed 64-bit integer, and the engine can allocate the elements.
\<close>

definition drawable :: "nat \<Rightarrow> int \<Rightarrow> int \<Rightarrow> int \<Rightarrow> bool" where
  "drawable cap n b d =
     (0 \<le> n \<and> 0 \<le> b \<and> 0 \<le> d \<and> n < 2 ^ 63 \<and> b < 2 ^ 63 \<and> d < 2 ^ 63 \<and> n * b * d < 2 ^ 63
      \<and> nat n * nat b * nat d \<le> cap)"

text \<open>The seed is omitted, or it is one the engine accepts.\<close>

definition seed_accepted :: "('a, 'g, 'h) engine \<Rightarrow> int option \<Rightarrow> bool" where
  "seed_accepted E seed =
     (case seed of None \<Rightarrow> True | Some s \<Rightarrow> \<not> isl (manual_seed_state E s))"

text \<open>Objective values of two queries of three items; the first row has a tie.\<close>

definition V23 :: "int tensor2" where
  "V23 = \<lparr>nrows = 2, ncols = 3, elems = [1, 5, 5, 9, 2, 9]\<rparr>"

text \<open>
  \<open>k\<close> is the arg-max index of \<open>xs\<close> with ties broken by the lowest index: no value is
  greater than the one at \<open>k\<close>, and every value before \<open>k\<close> is smaller.
\<close>

definition is_first_argmax :: "'v::linorder list \<Rightarrow> nat \<Rightarrow> bool" where
  "is_first_argmax xs k =
     (k < length xs \<and> list_all (\<lambda>x. x \<le> xs ! k) xs \<and> list_all (\<lambda>x. x < xs ! k) (take k xs))"

text \<open>Stand-ins for the model classes, for concrete evaluations of \<open>fit_model\<close>.\<close>

definition stub_collaborators :: "(int, string, string \<times> nat, nat) collaborators" where
  "stub_collaborators =
     \<lparr>PairwiseProbitLikelihood = ''probit'',
      PairwiseLogitLikelihood = ''logit'',
      PairwiseGP = (\<lambda>datapoints comparisons lf jitter. Inr (length comparisons)),
      PairwiseLaplaceMarginalLogLikelihood = (\<lambda>lf model. Inr (lf, model)),
      fit_gpytorch_model = (\<lambda>mll. Inr (snd mll)),
      to_device_dtype = (\<lambda>model queries. Inr model),
      PairwiseKernelVariationalGP = (\<lambda>queries responses. Inr (length responses))\<rparr>"

text \<open>
  The values \<open>xs\<close> of an array whose last axis has the size of the bounds' second axis
  lie within the bounds: row 0 of the bounds is the lower limit of each dimension and
  row 1 the upper limit.
\<close>

definition in_bounds :: "'a::linorder tensor2 \<Rightarrow> 'a list \<Rightarrow> bool" where
  "in_bounds bnds xs =
     list_all (\<lambda>t. entry bnds 0 (t mod ncols bnds) \<le> xs ! t \<and> xs ! t \<le> entry bnds 1 (t mod ncols bnds))
       [0..<length xs]"

text \<open>
  The contract of the multi-start optimizer called with \<^verbatim>\<open>return_best_only=False\<close>: it
  returns the candidates of all restarts, an array of shape \<open>(num_restarts, q, d)\<close> with
  every value within the bounds, and one acquisition value per restart.
\<close>

definition meets_contract ::
  "('a::linorder, 'f) optimize_acqf_args \<Rightarrow> 'a tensor3 variable \<times> 'v list \<Rightarrow> bool" where
  "meets_contract args result =
     (dim0 (payload (fst result)) = num_restarts args
      \<and> int (dim1 (payload (fst result))) = q args
      \<and> dim2 (payload (fst result)) = ncols (bounds args)
      \<and> length (data (payload (fst result))) =
          dim0 (payload (fst result)) * (dim1 (payload (fst result)) * dim2 (payload (fst result)))
      \<and> length (snd result) = num_restarts args
      \<and> in_bounds (bounds args) (data (payload (fst result))))"

text \<open>
  A stand-in optimizer for concrete evaluations: the values of its candidates count up
  from 0 in row-major order, so that no two restarts and no two points agree, and
  restart \<open>k\<close> has the acquisition value \<open>(k + 2) mod 4\<close>.
\<close>

definition ramp_optimizer ::
  "(int, unit) optimize_acqf_args \<Rightarrow> error + int tensor3 variable \<times> int list" where
  "ramp_optimizer args =
     Inr (\<lparr>payload =
             \<lparr>dim0 = num_restarts args, dim1 = nat (q args), dim2 = ncols (bounds args),
              data = map int [0..<num_restarts args * (nat (q args) * ncols (bounds args))]\<rparr>,
           requires_grad = True\<rparr>,
          map (\<lambda>k. int ((k + 2) mod 4)) [0..<num_restarts args])"

text \<open>Bounds of one dimension, from 0 to 10, and bounds of no dimension.\<close>

definition interval_0_10 :: "int tensor2" where
  "interval_0_10 = \<lparr>nrows = 2, ncols = 1, elems = [0, 10]\<rparr>"

definition no_dimension :: "int tensor2" where
  "no_dimension = \<lparr>nrows = 2, ncols = 0, elems = []\<rparr>"

section \<open>The encoder computes the contract's comparison set\<close>

lemma inner_loop_closed:
  "inner_loop Q i r best js (dp, cm) =
     (dp @ map (point Q i) js,
      cm @ map (\<lambda>j. (best, int (dim1 Q) * int i + int j)) (filter (\<lambda>j. int j \<noteq> r) js))"
  by (induction js arbitrary: dp cm) simp_all

lemma outer_loop_closed:
  "\<forall>i\<in>set is. i < length responses \<Longrightarrow>
   outer_loop Q responses is (dp, cm) =
     Inr (dp @ concat (map (\<lambda>i. map (point Q i) [0..<dim1 Q]) is),
          cm @ concat (map (query_pairs (dim1 Q) responses) is))"
proof (induction "is" arbitrary: dp cm)
  case Nil
  then show ?case by simp
next
  case (Cons i "is")
  have qp: "map (\<lambda>j. (int (dim1 Q) * int i + responses ! i, int (dim1 Q) * int i + int j))
              (filter (\<lambda>j. int j \<noteq> responses ! i) [0..<dim1 Q]) = query_pairs (dim1 Q) responses i"
    by (simp add: query_pairs_def mult.commute)
  from Cons.prems have i: "i < length responses" and rest: "\<forall>k\<in>set is. k < length responses"
    by simp_all
  show ?case
    using Cons.IH[OF rest] i by (simp add: getitem_def inner_loop_closed qp)
qed

lemma length_filter_neq:
  assumes "0 \<le> r" "r < int B"
  shows "length (filter (\<lambda>j. int j \<noteq> r) [0..<B]) = B - 1"
proof -
  have "filter (\<lambda>j. int j \<noteq> r) [0..<B] = removeAll (nat r) [0..<B]"
    using assms by (auto simp: removeAll_filter_not_eq intro!: filter_cong)
  also have "length \<dots> = B - 1"
    using assms by (simp add: distinct_remove1_removeAll[symmetric] length_remove1)
  finally show ?thesis .
qed

lemma length_query_pairs:
  "0 \<le> responses ! i \<Longrightarrow> responses ! i < int B \<Longrightarrow> length (query_pairs B responses i) = B - 1"
  by (simp add: query_pairs_def length_filter_neq)

lemma length_concat_const:
  "(\<And>x. x \<in> set xs \<Longrightarrow> length (f x) = c) \<Longrightarrow> length (concat (map f xs)) = length xs * c"
  by (induction xs) simp_all

lemma nth_concat_blocks:
  "i < n \<Longrightarrow> j < B \<Longrightarrow> concat (map (\<lambda>i. map (f i) [0..<B]) [0..<n]) ! (i * B + j) = f i j"
proof (induction n arbitrary: i)
  case 0
  then show ?case by simp
next
  case (Suc n)
  have len: "length (concat (map (\<lambda>i. map (f i) [0..<B]) [0..<n])) = n * B"
    by (simp add: length_concat_const)
  show ?case
  proof (cases "i < n")
    case True
    then have "i * B + j < n * B"
      using Suc.prems(2) by (metis add.commute less_eq_Suc_le mult_Suc mult_le_mono1 add_less_le_mono nat_add_left_cancel_less order_less_le_trans)
    then show ?thesis using Suc.IH[OF True Suc.prems(2)] len by (simp add: nth_append)
  next
    case False
    then have "i = n" using Suc.prems(1) by simp
    then show ?thesis using len Suc.prems(2) by (simp add: nth_append)
  qed
qed


lemma training_data_closed:
  assumes "dim0 Q \<le> length responses"
  shows "training_data_for_pairwise_gp Q responses =
     (let dp = concat (map (\<lambda>i. map (point Q i) [0..<dim1 Q]) [0..<dim0 Q]);
          cm = concat (map (query_pairs (dim1 Q) responses) [0..<dim0 Q])
      in if dp = [] then Inl RuntimeError else if cm = [] then Inl RuntimeError else Inr (dp, cm))"
proof -
  have "\<forall>i\<in>set [0..<dim0 Q]. i < length responses" using assms by simp
  from outer_loop_closed[OF this, of Q "[]" "[]"] show ?thesis
    by (simp add: training_data_for_pairwise_gp_def torch_cat_def Let_def)
qed

lemma query_pairs_member:
  assumes "p \<in> set (query_pairs B responses i)" "0 \<le> responses ! i" "responses ! i < int B" "i < N"
  shows "fst p \<noteq> snd p \<and> 0 \<le> fst p \<and> fst p < int (N * B) \<and> 0 \<le> snd p \<and> snd p < int (N * B)"
proof -
  from assms(1) obtain j where j: "j < B" "int j \<noteq> responses ! i"
    and p: "p = (int (i * B) + responses ! i, int (i * B + j))"
    by (auto simp: query_pairs_def)
  have "i * B + B \<le> N * B"
    using assms(4) by (metis Suc_leI mult_Suc mult_le_mono1 add.commute)
  then have le: "int (i * B) + int B \<le> int (N * B)"
    by (metis of_nat_add of_nat_le_iff)
  show ?thesis using p j assms(2,3) le by auto
qed

text \<open>
  Claim C1. For a query batch of shape \<open>(N, B, d)\<close> with \<open>N \<ge> 1\<close> and \<open>B \<ge> 2\<close> and a
  response array of \<open>N\<close> entries in \<open>[0, B)\<close>, the encoder returns: datapoints of
  exactly \<open>N * B\<close> rows, row \<open>i * B + j\<close> being point \<open>j\<close> of query \<open>i\<close>; comparisons of
  exactly \<open>N * (B - 1)\<close> rows, grouped by query in query order and then by item index
  skipping the winner, each pair being \<open>(i * B + response[i], i * B + j)\<close>; no pair has
  equal components, and every index is a row of the datapoints.
\<close>

theorem training_data_encoding:
  assumes "1 \<le> dim0 Q" and "2 \<le> dim1 Q" and "length responses = dim0 Q"
    and "\<forall>r\<in>set responses. 0 \<le> r \<and> r < int (dim1 Q)"
  shows "\<exists>dp cm. training_data_for_pairwise_gp Q responses = Inr (dp, cm)
    \<and> length dp = dim0 Q * dim1 Q
    \<and> (\<forall>i<dim0 Q. \<forall>j<dim1 Q. dp ! (i * dim1 Q + j) = point Q i j)
    \<and> length cm = dim0 Q * (dim1 Q - 1)
    \<and> cm = concat (map (query_pairs (dim1 Q) responses) [0..<dim0 Q])
    \<and> (\<forall>p\<in>set cm. fst p \<noteq> snd p \<and> 0 \<le> fst p \<and> fst p < int (dim0 Q * dim1 Q)
          \<and> 0 \<le> snd p \<and> snd p < int (dim0 Q * dim1 Q))"
proof -
  define dp where "dp = concat (map (\<lambda>i. map (point Q i) [0..<dim1 Q]) [0..<dim0 Q])"
  define cm where "cm = concat (map (query_pairs (dim1 Q) responses) [0..<dim0 Q])"
  have r: "0 \<le> responses ! i \<and> responses ! i < int (dim1 Q)" if "i < dim0 Q" for i
    using assms(3,4) that by (metis nth_mem)
  have len_dp: "length dp = dim0 Q * dim1 Q"
    unfolding dp_def by (simp add: length_concat_const)
  have "length (concat (map (query_pairs (dim1 Q) responses) [0..<dim0 Q])) =
          length [0..<dim0 Q] * (dim1 Q - 1)"
    by (rule length_concat_const) (simp add: r length_query_pairs)
  then have len_cm: "length cm = dim0 Q * (dim1 Q - 1)"
    unfolding cm_def by simp
  have "0 < dim0 Q * dim1 Q" and "0 < dim0 Q * (dim1 Q - 1)"
    using assms(1,2) by simp_all
  then have ne: "dp \<noteq> []" "cm \<noteq> []"
    using len_dp len_cm by auto
  have res: "training_data_for_pairwise_gp Q responses = Inr (dp, cm)"
    using training_data_closed[of Q responses] assms(3) ne
    by (simp add: Let_def dp_def cm_def)
  have rows: "\<forall>i<dim0 Q. \<forall>j<dim1 Q. dp ! (i * dim1 Q + j) = point Q i j"
    unfolding dp_def by (simp add: nth_concat_blocks)
  have pairs: "\<forall>p\<in>set cm. fst p \<noteq> snd p \<and> 0 \<le> fst p \<and> fst p < int (dim0 Q * dim1 Q)
          \<and> 0 \<le> snd p \<and> snd p < int (dim0 Q * dim1 Q)"
  proof
    fix p assume "p \<in> set cm"
    then obtain i where i: "i < dim0 Q" and p: "p \<in> set (query_pairs (dim1 Q) responses i)"
      unfolding cm_def by auto
    from query_pairs_member[OF p _ _ i] r[OF i]
    show "fst p \<noteq> snd p \<and> 0 \<le> fst p \<and> fst p < int (dim0 Q * dim1 Q)
          \<and> 0 \<le> snd p \<and> snd p < int (dim0 Q * dim1 Q)" by blast
  qed
  show ?thesis
    using res len_dp rows len_cm pairs cm_def by blast
qed

theorem training_data_encoding_witness:
  "training_data_for_pairwise_gp Q22 [1, 0] = Inr ([[10], [20], [30], [40]], [(1, 0), (2, 3)])"
proof -
  have h: "1 \<le> dim0 Q22" "2 \<le> dim1 Q22" "length [1, 0 :: int] = dim0 Q22"
    "\<forall>r\<in>set [1, 0 :: int]. 0 \<le> r \<and> r < int (dim1 Q22)"
    by (simp_all add: Q22_def)
  from training_data_encoding[OF h] obtain dp cm where
    res: "training_data_for_pairwise_gp Q22 [1, 0] = Inr (dp, cm)"
    and len: "length dp = dim0 Q22 * dim1 Q22"
    and rows: "\<forall>i<dim0 Q22. \<forall>j<dim1 Q22. dp ! (i * dim1 Q22 + j) = point Q22 i j"
    and cm: "cm = concat (map (query_pairs (dim1 Q22) [1, 0]) [0..<dim0 Q22])"
    by blast
  have "cm = [(1, 0), (2, 3)]"
    unfolding cm by (simp add: Q22_def query_pairs_def upt_rec numeral_2_eq_2)
  moreover have "dp = [[10], [20], [30], [40]]"
  proof (rule nth_equalityI)
    show "length dp = length [[10], [20], [30], [40 :: int]]" using len by (simp add: Q22_def)
  next
    fix k assume "k < length dp"
    then have "k < 4" using len by (simp add: Q22_def)
    then consider "k = 0" | "k = 1" | "k = 2" | "k = 3" by linarith
    then show "dp ! k = [[10], [20], [30], [40]] ! k"
    proof cases
      case 1 with rows[rule_format, of 0 0] show ?thesis by (simp add: Q22_def point_def)
    next
      case 2 with rows[rule_format, of 0 1] show ?thesis by (simp add: Q22_def point_def)
    next
      case 3 with rows[rule_format, of 1 0] show ?thesis by (simp add: Q22_def point_def)
    next
      case 4 with rows[rule_format, of 1 1] show ?thesis by (simp add: Q22_def point_def)
    qed
  qed
  ultimately show ?thesis using res by simp
qed

section \<open>Queries of a single item\<close>

lemma outer_loop_short:
  "i \<in> set is \<Longrightarrow> \<not> i < length responses \<Longrightarrow> outer_loop Q responses is acc = Inl IndexError"
proof (induction "is" arbitrary: acc)
  case Nil
  then show ?case by simp
next
  case (Cons k "is")
  show ?case
  proof (cases "k < length responses")
    case True
    with Cons.prems have "i \<in> set is" by auto
    from Cons.IH[OF this Cons.prems(2)] True show ?thesis
      by (simp add: getitem_def Let_def)
  next
    case False
    then show ?thesis by (simp add: getitem_def)
  qed
qed

lemma query_pairs_single:
  "responses ! i = 0 \<Longrightarrow> query_pairs (Suc 0) responses i = []"
  by (simp add: query_pairs_def)

text \<open>
  Claim C10, as stated, at a response that is not an item of its query: with batch size
  1 and the response 1, item 0 differs from the response, a pair is appended and the
  encoder returns.
\<close>

theorem single_item_batch_counterexample:
  "training_data_for_pairwise_gp Q11 [1] = Inr ([[10]], [(1, 0)])"
  by (simp add: training_data_for_pairwise_gp_def Q11_def getitem_def torch_cat_def point_def)

text \<open>
  Claim C10, amended. For a query batch with batch size \<open>B = 1\<close> and a response array
  whose entries lie in \<open>[0, B)\<close>, the encoder fails rather than returning an empty
  comparison set: no query contributes a comparison pair, and with a response for every
  query the failure is that of concatenating an empty list.
\<close>

theorem single_item_batch_fails:
  assumes "dim1 Q = 1" and "\<forall>r\<in>set responses. 0 \<le> r \<and> r < int (dim1 Q)"
  shows "(\<exists>e. training_data_for_pairwise_gp Q responses = Inl e)
    \<and> (\<forall>i<length responses. query_pairs (dim1 Q) responses i = [])
    \<and> (dim0 Q \<le> length responses \<longrightarrow>
          training_data_for_pairwise_gp Q responses = Inl RuntimeError)"
proof -
  have zero: "responses ! i = 0" if "i < length responses" for i
  proof -
    from that have "responses ! i \<in> set responses" by simp
    with assms(2) have "0 \<le> responses ! i" "responses ! i < int (dim1 Q)" by blast+
    with assms(1) show ?thesis by simp
  qed
  have none: "\<forall>i<length responses. query_pairs (dim1 Q) responses i = []"
    using zero assms(1) by (simp add: query_pairs_single)
  have long: "training_data_for_pairwise_gp Q responses = Inl RuntimeError"
    if le: "dim0 Q \<le> length responses"
  proof -
    have "concat (map (query_pairs (dim1 Q) responses) [0..<dim0 Q]) = []"
      using none le by simp
    then show ?thesis
      using training_data_closed[OF le] by (simp add: Let_def)
  qed
  have short: "training_data_for_pairwise_gp Q responses = Inl IndexError"
    if "\<not> dim0 Q \<le> length responses"
  proof -
    from that have "length responses \<in> set [0..<dim0 Q]" by simp
    from outer_loop_short[OF this, of responses Q "([], [])"] show ?thesis
      by (simp add: training_data_for_pairwise_gp_def)
  qed
  show ?thesis using none long short by blast
qed

theorem single_item_batch_fails_witness:
  "training_data_for_pairwise_gp Q11 [0] = Inl RuntimeError"
proof -
  have h: "dim1 Q11 = 1" "\<forall>r\<in>set [0 :: int]. 0 \<le> r \<and> r < int (dim1 Q11)"
    by (simp_all add: Q11_def)
  from single_item_batch_fails[OF h] show ?thesis by (simp add: Q11_def)
qed

section \<open>Unrecognized arguments\<close>

text \<open>
  Claim C2, as stated, at the model type \<open>svm\<close> and at the likelihood \<open>cauchy\<close>: the
  failure is the read of an unassigned local, not an invalid-argument error.
\<close>

theorem fit_model_counterexample:
  "fit_model stub_collaborators Q22 [1, 0] ''svm'' (Some ''logit'') = Inl UnboundLocalError
   \<and> fit_model stub_collaborators Q22 [1, 0] ''svm'' (Some ''logit'') \<noteq> Inl ValueError
   \<and> fit_model stub_collaborators Q22 [1, 0] ''pairwise_gp'' (Some ''cauchy'') = Inl UnboundLocalError
   \<and> fit_model stub_collaborators Q22 [1, 0] ''pairwise_gp'' (Some ''cauchy'') \<noteq> Inl ValueError"
  by (simp add: fit_model_def training_data_for_pairwise_gp_def Q22_def getitem_def
      torch_cat_def point_def upt_rec numeral_2_eq_2)

text \<open>
  Claim C2, amended. \<open>fit_model\<close> returns no model when the model type is neither
  \<open>pairwise_gp\<close> nor \<open>pairwise_kernel_variational_gp\<close>: it fails with the read of the
  unassigned \<open>model\<close>. When the model type is \<open>pairwise_gp\<close> and the likelihood is
  neither \<open>probit\<close> nor \<open>logit\<close> it fails too: with the encoder's error if the encoder
  fails on the data, and otherwise with the read of the unassigned likelihood, before
  any model is constructed.
\<close>

theorem fit_model_unrecognized:
  "(model_type \<noteq> ''pairwise_gp'' \<and> model_type \<noteq> ''pairwise_kernel_variational_gp'' \<longrightarrow>
      fit_model C Q responses model_type likelihood = Inl UnboundLocalError)
   \<and> (model_type = ''pairwise_gp'' \<and> likelihood \<noteq> Some ''probit'' \<and> likelihood \<noteq> Some ''logit'' \<longrightarrow>
      fit_model C Q responses model_type likelihood =
        (case training_data_for_pairwise_gp Q responses of
           Inl e \<Rightarrow> Inl e
         | Inr encoded \<Rightarrow> Inl UnboundLocalError))"
  by (auto simp: fit_model_def split: sum.splits)

theorem fit_model_unrecognized_witness:
  "fit_model stub_collaborators Q22 [1, 0] ''random_forest'' None = Inl UnboundLocalError
   \<and> fit_model stub_collaborators Q11 [0] ''pairwise_gp'' (Some ''cauchy'') = Inl RuntimeError"
proof -
  have "training_data_for_pairwise_gp Q11 [0] = Inl RuntimeError"
    by (simp add: training_data_for_pairwise_gp_def Q11_def getitem_def torch_cat_def)
  then show ?thesis
    using fit_model_unrecognized[where model_type = "''random_forest''" and C = stub_collaborators
        and Q = Q22 and responses = "[1, 0]" and likelihood = None]
      fit_model_unrecognized[where model_type = "''pairwise_gp''" and C = stub_collaborators
        and Q = Q11 and responses = "[0]" and likelihood = "Some ''cauchy''"]
    by simp
qed

text \<open>
  Claim C3, as stated, at the noise type \<open>gauss\<close>: the failure is the read of an
  unassigned local, not an invalid-argument error.
\<close>

theorem corrupt_obj_vals_counterexample:
  "corrupt_obj_vals lcg_noise lcg_noise V23 ''gauss'' 3 (7::nat) = (Inl UnboundLocalError, 7)
   \<and> fst (corrupt_obj_vals lcg_noise lcg_noise V23 ''gauss'' 3 (7::nat)) \<noteq> Inl ValueError"
  by (simp add: corrupt_obj_vals_def)

text \<open>
  Claim C3, amended. For every noise type other than \<open>noiseless\<close>, \<open>probit\<close> and
  \<open>logit\<close>, whatever the values and the noise level, \<open>corrupt_obj_vals\<close> (and hence
  \<open>generate_responses\<close>) fails with the read of the unassigned result, and the global
  generator is left as it was.
\<close>

theorem corrupt_obj_vals_unrecognized:
  assumes "noise_type \<noteq> ''noiseless''" and "noise_type \<noteq> ''probit''" and "noise_type \<noteq> ''logit''"
  shows "corrupt_obj_vals Normal Gumbel obj_vals noise_type noise_level g = (Inl UnboundLocalError, g)
    \<and> generate_responses Normal Gumbel obj_vals noise_type noise_level g = (Inl UnboundLocalError, g)"
  using assms by (simp add: corrupt_obj_vals_def generate_responses_def)

theorem corrupt_obj_vals_unrecognized_witness:
  "corrupt_obj_vals lcg_noise lcg_noise V23 ''uniform'' 3 (7::nat) = (Inl UnboundLocalError, 7)
   \<and> generate_responses lcg_noise lcg_noise V23 ''uniform'' 3 (7::nat) = (Inl UnboundLocalError, 7)"
  using corrupt_obj_vals_unrecognized[where noise_type = "''uniform''" and Normal = lcg_noise
      and Gumbel = lcg_noise and obj_vals = V23 and noise_level = 3 and g = "7::nat"]
  by simp

section \<open>The objective evaluator\<close>

lemma flat_index_less: "i < n \<Longrightarrow> j < (B::nat) \<Longrightarrow> i * B + j < n * B"
proof -
  assume a: "i < n" "j < B"
  then have "i * B + j < i * B + B" by simp
  also have "\<dots> = Suc i * B" by simp
  also have "\<dots> \<le> n * B" using a(1) by (intro mult_le_mono1) simp
  finally show ?thesis .
qed

text \<open>
  Claim C7. For a query batch of shape \<open>(N, B, d)\<close> and an objective function that
  applies a fixed per-point function to each row of an \<open>(M, d)\<close> array, \<open>get_obj_vals\<close>
  returns an array of shape \<open>(N, B)\<close> whose entry \<open>(i, j)\<close> is the per-point function
  applied to point \<open>j\<close> of query \<open>i\<close>: flattening, evaluating once and reshaping equals
  evaluating each point on its own.
\<close>

theorem get_obj_vals_pointwise:
  assumes "length (data Q) = dim0 Q * dim1 Q * dim2 Q"
  shows "\<exists>V. get_obj_vals Q (pointwise f) = Inr V
    \<and> nrows V = dim0 Q \<and> ncols V = dim1 Q \<and> length (elems V) = dim0 Q * dim1 Q
    \<and> (\<forall>i<dim0 Q. \<forall>j<dim1 Q. entry V i j = f (point Q i j))"
proof -
  define q2 where "q2 = \<lparr>nrows = dim0 Q * dim1 Q, ncols = dim2 Q, elems = data Q\<rparr>"
  define V where "V = \<lparr>nrows = dim0 Q, ncols = dim1 Q,
     elems = map (\<lambda>k. f (row q2 k)) [0..<dim0 Q * dim1 Q]\<rparr>"
  have r1: "reshape (data Q) (dim0 Q * dim1 Q) (dim2 Q) = Inr q2"
    using assms by (simp add: reshape_def q2_def)
  have r2: "pointwise f q2 = Inr (map (\<lambda>k. f (row q2 k)) [0..<dim0 Q * dim1 Q])"
    by (simp add: pointwise_def q2_def)
  have "get_obj_vals Q (pointwise f) =
      reshape (map (\<lambda>k. f (row q2 k)) [0..<dim0 Q * dim1 Q]) (dim0 Q) (dim1 Q)"
    by (simp add: get_obj_vals_def r1 r2)
  also have "\<dots> = Inr V"
    by (simp add: reshape_def V_def)
  finally have res: "get_obj_vals Q (pointwise f) = Inr V" .
  have ent: "entry V i j = f (point Q i j)" if "i < dim0 Q" "j < dim1 Q" for i j
  proof -
    have "i * dim1 Q + j < dim0 Q * dim1 Q" using that by (rule flat_index_less)
    then have "entry V i j = f (row q2 (i * dim1 Q + j))"
      by (simp add: entry_def V_def)
    also have "row q2 (i * dim1 Q + j) = point Q i j"
      by (simp add: row_def point_def q2_def)
    finally show ?thesis .
  qed
  have "nrows V = dim0 Q" "ncols V = dim1 Q" "length (elems V) = dim0 Q * dim1 Q"
    by (simp_all add: V_def)
  with res ent show ?thesis by blast
qed

theorem get_obj_vals_pointwise_witness:
  "get_obj_vals Q22 (pointwise sum_list) = Inr \<lparr>nrows = 2, ncols = 2, elems = [10, 20, 30, 40]\<rparr>"
proof -
  have h: "length (data Q22) = dim0 Q22 * dim1 Q22 * dim2 Q22" by (simp add: Q22_def)
  from get_obj_vals_pointwise[OF h, of sum_list] obtain V where
    "get_obj_vals Q22 (pointwise sum_list) = Inr V" by blast
  then show ?thesis
    by (simp add: get_obj_vals_def reshape_def pointwise_def Q22_def row_def upt_rec
        numeral_2_eq_2 split: if_splits)
qed

section \<open>Noiseless responses\<close>

lemma argmax_scan_spec:
  assumes "best < length pre" and "pre ! best = bv" and "k = length pre"
    and "\<forall>j<length pre. pre ! j \<le> bv" and "\<forall>j<best. pre ! j < bv"
  shows "argmax_scan best bv k xs < length (pre @ xs)
    \<and> (\<forall>j<length (pre @ xs). (pre @ xs) ! j \<le> (pre @ xs) ! argmax_scan best bv k xs)
    \<and> (\<forall>j<argmax_scan best bv k xs. (pre @ xs) ! j < (pre @ xs) ! argmax_scan best bv k xs)"
  using assms
proof (induction xs arbitrary: best bv k pre)
  case Nil
  then show ?case by simp
next
  case (Cons x xs)
  show ?case
  proof (cases "bv < x")
    case True
    have a: "length pre < length (pre @ [x])" by simp
    have b: "(pre @ [x]) ! length pre = x" by simp
    have c: "Suc k = length (pre @ [x])" using Cons.prems(3) by simp
    have d: "\<forall>j<length (pre @ [x]). (pre @ [x]) ! j \<le> x"
      using Cons.prems(4) True by (auto simp: nth_append less_Suc_eq)
    have e: "\<forall>j<length pre. (pre @ [x]) ! j < x"
      using Cons.prems(4) True by (auto simp: nth_append)
    from Cons.IH[OF a b c d e] True Cons.prems(3) show ?thesis by simp
  next
    case False
    have a: "best < length (pre @ [x])" using Cons.prems(1) by simp
    have b: "(pre @ [x]) ! best = bv" using Cons.prems(1,2) by (simp add: nth_append)
    have c: "Suc k = length (pre @ [x])" using Cons.prems(3) by simp
    have d: "\<forall>j<length (pre @ [x]). (pre @ [x]) ! j \<le> bv"
      using Cons.prems(4) False by (auto simp: nth_append less_Suc_eq)
    have e: "\<forall>j<best. (pre @ [x]) ! j < bv"
      using Cons.prems(1,5) by (auto simp: nth_append)
    from Cons.IH[OF a b c d e] False show ?thesis by simp
  qed
qed

lemma is_first_argmax_iff:
  "is_first_argmax xs k \<longleftrightarrow>
     k < length xs \<and> (\<forall>j<length xs. xs ! j \<le> xs ! k) \<and> (\<forall>j<k. xs ! j < xs ! k)"
  by (auto simp: is_first_argmax_def list_all_length)

lemma torch_argmax_first:
  assumes "xs \<noteq> []"
  shows "\<exists>k. torch_argmax xs = Inr k \<and> is_first_argmax xs k"
proof -
  from assms obtain x rest where xs: "xs = x # rest" by (cases xs) auto
  have "argmax_scan 0 x 1 rest < length ([x] @ rest)
    \<and> (\<forall>j<length ([x] @ rest). ([x] @ rest) ! j \<le> ([x] @ rest) ! argmax_scan 0 x 1 rest)
    \<and> (\<forall>j<argmax_scan 0 x 1 rest. ([x] @ rest) ! j < ([x] @ rest) ! argmax_scan 0 x 1 rest)"
    by (rule argmax_scan_spec) simp_all
  then have "is_first_argmax xs (argmax_scan 0 x 1 rest)"
    unfolding is_first_argmax_iff xs by simp
  then show ?thesis by (simp add: torch_argmax_def xs)
qed

lemma argmax_rows_first:
  assumes "\<forall>r\<in>set rows. r \<noteq> []"
  shows "\<exists>ks. argmax_rows rows = Inr ks \<and> length ks = length rows
    \<and> (\<forall>i<length rows. is_first_argmax (rows ! i) (ks ! i))"
  using assms
proof (induction rows)
  case Nil
  then show ?case by simp
next
  case (Cons r rows)
  from Cons.prems have "r \<noteq> []" by simp
  from torch_argmax_first[OF this] obtain k where k: "torch_argmax r = Inr k" "is_first_argmax r k"
    by blast
  from Cons.prems have "\<forall>r\<in>set rows. r \<noteq> []" by simp
  from Cons.IH[OF this] obtain ks where ks: "argmax_rows rows = Inr ks" "length ks = length rows"
    "\<forall>i<length rows. is_first_argmax (rows ! i) (ks ! i)" by blast
  have "argmax_rows (r # rows) = Inr (k # ks)" using k(1) ks(1) by simp
  moreover have "length (k # ks) = length (r # rows)" using ks(2) by simp
  moreover have "\<forall>i<length (r # rows). is_first_argmax ((r # rows) ! i) ((k # ks) ! i)"
    using k(2) ks(3) by (auto simp: nth_Cons split: nat.splits)
  ultimately show ?case by blast
qed

lemma length_row:
  assumes "length (elems t) = nrows t * ncols t" and "k < nrows t"
  shows "length (row t k) = ncols t"
proof -
  have "Suc k * ncols t \<le> nrows t * ncols t" using assms(2) by (intro mult_le_mono1) simp
  then have "k * ncols t + ncols t \<le> length (elems t)" using assms(1) by simp
  then show ?thesis by (simp add: row_def)
qed

text \<open>
  Claim C8. With the noise type \<open>noiseless\<close> and any noise level, \<open>corrupt_obj_vals\<close>
  returns its input unchanged (and draws nothing), and \<open>generate_responses\<close> then
  returns, for each row of an \<open>(N, B)\<close> array with \<open>B > 0\<close>, the arg-max index of the
  uncorrupted values of that row, ties broken by the lowest index.
\<close>

theorem noiseless_responses:
  "corrupt_obj_vals Normal Gumbel V ''noiseless'' noise_level g = (Inr V, g)
   \<and> (length (elems V) = nrows V * ncols V \<and> 0 < ncols V \<longrightarrow>
        (\<exists>rs. generate_responses Normal Gumbel V ''noiseless'' noise_level g = (Inr rs, g)
           \<and> length rs = nrows V
           \<and> (\<forall>i<nrows V. is_first_argmax (row V i) (rs ! i))))"
proof -
  have c: "corrupt_obj_vals Normal Gumbel V ''noiseless'' noise_level g = (Inr V, g)"
    by (simp add: corrupt_obj_vals_def)
  have r: "\<exists>rs. generate_responses Normal Gumbel V ''noiseless'' noise_level g = (Inr rs, g)
           \<and> length rs = nrows V
           \<and> (\<forall>i<nrows V. is_first_argmax (row V i) (rs ! i))"
    if wf: "length (elems V) = nrows V * ncols V" and pos: "0 < ncols V"
  proof -
    have "row V k \<noteq> []" if "k < nrows V" for k
      using length_row[OF wf that] pos by (metis length_0_conv less_numeral_extra(3))
    then have "\<forall>r\<in>set (map (row V) [0..<nrows V]). r \<noteq> []"
      by auto
    from argmax_rows_first[OF this] obtain ks where
      ks: "argmax_rows (map (row V) [0..<nrows V]) = Inr ks"
        "length ks = length (map (row V) [0..<nrows V])"
        "\<forall>i<length (map (row V) [0..<nrows V]).
           is_first_argmax (map (row V) [0..<nrows V] ! i) (ks ! i)"
      by blast
    have "generate_responses Normal Gumbel V ''noiseless'' noise_level g = (Inr ks, g)"
      using pos ks(1) by (simp add: generate_responses_def c argmax_last_dim_def)
    moreover have "length ks = nrows V" using ks(2) by simp
    moreover have "\<forall>i<nrows V. is_first_argmax (row V i) (ks ! i)"
      using ks(3) by simp
    ultimately show ?thesis by blast
  qed
  show ?thesis using c r by blast
qed

theorem noiseless_responses_witness:
  "corrupt_obj_vals lcg_noise lcg_noise V23 ''noiseless'' 3 (7::nat) = (Inr V23, 7)
   \<and> generate_responses lcg_noise lcg_noise V23 ''noiseless'' 3 (7::nat) = (Inr [1, 0], 7)"
proof -
  note T = noiseless_responses[where Normal = lcg_noise and Gumbel = lcg_noise and V = V23
      and noise_level = 3 and g = "7::nat"]
  from T have a: "corrupt_obj_vals lcg_noise lcg_noise V23 ''noiseless'' 3 (7::nat) = (Inr V23, 7)"
    by (rule conjunct1)
  have rows: "map (row V23) [0..<nrows V23] = [[1, 5, 5], [9, 2, 9]]"
    by (simp add: V23_def row_def upt_rec numeral_2_eq_2)
  have "argmax_rows [[1, 5, 5], [9, 2, 9 :: int]] = Inr [1, 0]"
    by (simp add: torch_argmax_def)
  then have "argmax_last_dim V23 = Inr [1, 0]"
    unfolding argmax_last_dim_def rows by (simp add: V23_def)
  then have b: "generate_responses lcg_noise lcg_noise V23 ''noiseless'' 3 (7::nat) = (Inr [1, 0], 7)"
    by (simp add: generate_responses_def a)
  show ?thesis using a b by (intro conjI)
qed

section \<open>The query sampler and the generators\<close>

lemma draws_Suc:
  "draws step (Suc k) g =
     (fst (step g) # fst (draws step k (snd (step g))), snd (draws step k (snd (step g))))"
  by (simp split: prod.splits)

lemma draws_state: "snd (draws step k g) = ((snd \<circ> step) ^^ k) g"
proof (induction k arbitrary: g)
  case 0
  then show ?case by simp
next
  case (Suc k)
  have "snd (draws step (Suc k) g) = snd (draws step k (snd (step g)))"
    by (simp only: draws_Suc snd_conv)
  also have "\<dots> = ((snd \<circ> step) ^^ k) (snd (step g))" by (rule Suc.IH)
  also have "\<dots> = ((snd \<circ> step) ^^ Suc k) g" by (simp add: funpow_swap1)
  finally show ?case .
qed

lemma draws_length: "length (fst (draws step k g)) = k"
proof (induction k arbitrary: g)
  case 0
  then show ?case by simp
next
  case (Suc k)
  have "length (fst (draws step (Suc k) g)) = Suc (length (fst (draws step k (snd (step g)))))"
    by (simp only: draws_Suc fst_conv list.size(4))
  then show ?case by (simp only: Suc.IH)
qed

lemma torch_rand_drawable:
  assumes "drawable cap n b d"
  shows "torch_rand cap step n b d g =
     (Inr \<lparr>dim0 = nat n, dim1 = nat b, dim2 = nat d,
           data = fst (draws step (nat n * nat b * nat d) g)\<rparr>,
      snd (draws step (nat n * nat b * nat d) g))"
  using assms by (simp add: torch_rand_def drawable_def not_le not_less split: prod.splits)

lemma torch_rand_rejected:
  "\<not> drawable cap n b d \<Longrightarrow> torch_rand cap step n b d g = (Inl RuntimeError, g)"
  by (auto simp: torch_rand_def drawable_def not_le not_less)


lemma seeded_call_drawable:
  assumes "drawable (capacity E) n b d"
  shows "generate_random_queries E n b d (Some s) G =
     (case manual_seed_state E s of
        Inl e \<Rightarrow> (Inl e, G)
      | Inr g1 \<Rightarrow>
          (Inr \<lparr>dim0 = nat n, dim1 = nat b, dim2 = nat d,
                data = fst (draws (uniform_step E) (nat n * nat b * nat d) g1)\<rparr>,
           \<lparr>default_gen = default_gen G,
            device_gens = map (\<lambda>h. device_seed_state E s) (device_gens G)\<rparr>))"
  by (simp add: generate_random_queries_def torch_manual_seed_def torch_rand_drawable[OF assms]
      split: sum.splits)

lemma unseeded_call:
  "generate_random_queries E n b d None G =
     (fst (torch_rand (capacity E) (uniform_step E) n b d (default_gen G)),
      G\<lparr>default_gen := snd (torch_rand (capacity E) (uniform_step E) n b d (default_gen G))\<rparr>)"
  by (simp add: generate_random_queries_def split: prod.splits)





text \<open>
  Claim C5, as stated, at one query of one point in one dimension: the unseeded call
  draws from the default generator and leaves it in state 599 instead of 7.
\<close>

theorem unseeded_state_counterexample:
  "default_gen (snd (generate_random_queries lcg_engine 1 1 1 None lcg_generators)) = 599
   \<and> default_gen lcg_generators = 7"
proof -
  have one: "nat 1 * nat 1 * nat 1 = Suc 0" by simp
  show ?thesis
    by (simp add: generate_random_queries_def torch_rand_def lcg_engine_def lcg_generators_def one)
qed

text \<open>
  Claim C5, amended. With the seed omitted the call has no effect on the generators
  other than that of its one draw on the default generator: the generators of the
  other devices are as on entry; when \<^verbatim>\<open>torch.rand\<close> can draw the shape, the call
  returns the batch drawn from the default generator's state on entry and leaves that
  generator in the state reached by \<open>num_queries * batch_size * input_dim\<close> successive
  draws; and when \<^verbatim>\<open>torch.rand\<close> cannot draw the shape, the call fails and all
  generators are as on entry.
\<close>

theorem unseeded_queries_one_draw:
  "device_gens (snd (generate_random_queries E n b d None G)) = device_gens G
   \<and> (drawable (capacity E) n b d \<longrightarrow>
        fst (generate_random_queries E n b d None G) =
          Inr \<lparr>dim0 = nat n, dim1 = nat b, dim2 = nat d,
               data = fst (draws (uniform_step E) (nat n * nat b * nat d) (default_gen G))\<rparr>
        \<and> default_gen (snd (generate_random_queries E n b d None G)) =
          ((snd \<circ> uniform_step E) ^^ (nat n * nat b * nat d)) (default_gen G))
   \<and> (\<not> drawable (capacity E) n b d \<longrightarrow>
        generate_random_queries E n b d None G = (Inl RuntimeError, G))"
  by (simp add: unseeded_call torch_rand_drawable torch_rand_rejected draws_state)

theorem unseeded_queries_one_draw_witness:
  "default_gen (snd (generate_random_queries lcg_engine 1 2 1 None lcg_generators)) = 44999
   \<and> device_gens (snd (generate_random_queries lcg_engine 1 2 1 None lcg_generators)) = [9]
   \<and> generate_random_queries lcg_engine (2 ^ 63) 2 1 None lcg_generators =
       (Inl RuntimeError, lcg_generators)"
proof -
  note A = unseeded_queries_one_draw[where E = lcg_engine and n = 1 and b = 2 and d = 1
      and G = lcg_generators]
  note B = unseeded_queries_one_draw[where E = lcg_engine and n = "2 ^ 63" and b = 2 and d = 1
      and G = lcg_generators]
  have dr: "drawable (capacity lcg_engine) 1 2 1"
    by (simp add: drawable_def lcg_engine_def)
  have ndr: "\<not> drawable (capacity lcg_engine) (2 ^ 63) 2 1"
    by (simp add: drawable_def)
  have k: "nat 1 * nat 2 * nat 1 = Suc (Suc 0)" by simp
  have two: "((snd \<circ> uniform_step lcg_engine) ^^ (nat 1 * nat 2 * nat 1)) (default_gen lcg_generators) = 44999"
    unfolding k by (simp add: lcg_engine_def lcg_generators_def)
  from A dr have "default_gen (snd (generate_random_queries lcg_engine 1 2 1 None lcg_generators)) =
      ((snd \<circ> uniform_step lcg_engine) ^^ (nat 1 * nat 2 * nat 1)) (default_gen lcg_generators)"
    by blast
  then have a: "default_gen (snd (generate_random_queries lcg_engine 1 2 1 None lcg_generators)) = 44999"
    unfolding two .
  from A have "device_gens (snd (generate_random_queries lcg_engine 1 2 1 None lcg_generators)) =
      device_gens lcg_generators"
    by (rule conjunct1)
  then have b: "device_gens (snd (generate_random_queries lcg_engine 1 2 1 None lcg_generators)) = [9]"
    by (simp add: lcg_generators_def)
  from B ndr have c: "generate_random_queries lcg_engine (2 ^ 63) 2 1 None lcg_generators =
       (Inl RuntimeError, lcg_generators)"
    by blast
  show ?thesis using a b c by (intro conjI)
qed

text \<open>
  Claim C6, as stated, at \<open>num_queries = 0\<close>: the call returns an empty batch, seeded or
  not.
\<close>

theorem nonpositive_size_counterexample:
  "generate_random_queries lcg_engine 0 2 3 None lcg_generators =
     (Inr \<lparr>dim0 = 0, dim1 = 2, dim2 = 3, data = []\<rparr>, lcg_generators)
   \<and> fst (generate_random_queries lcg_engine 0 2 3 (Some 42) lcg_generators) =
     Inr \<lparr>dim0 = 0, dim1 = 2, dim2 = 3, data = []\<rparr>"
  by (simp add: generate_random_queries_def torch_manual_seed_def torch_rand_def lcg_engine_def
      lcg_generators_def)

lemma negative_not_drawable: "n < 0 \<or> b < 0 \<or> d < 0 \<Longrightarrow> \<not> drawable cap n b d"
  by (auto simp: drawable_def)

text \<open>
  Claim C6, amended. The call fails whenever one of the three sizes is negative, and
  with the array engine's error when the seed is omitted or one the engine accepts. A
  zero size is not an error: whenever \<^verbatim>\<open>torch.rand\<close> can draw the shape and the seed is
  omitted or one the engine accepts, the call returns a batch of that shape, which is
  empty when one of the sizes is zero.
\<close>

theorem negative_size_fails:
  "(n < 0 \<or> b < 0 \<or> d < 0 \<longrightarrow>
      (\<exists>e. fst (generate_random_queries E n b d seed G) = Inl e)
      \<and> (seed_accepted E seed \<longrightarrow>
            fst (generate_random_queries E n b d seed G) = Inl RuntimeError))
   \<and> (drawable (capacity E) n b d \<and> seed_accepted E seed \<longrightarrow>
      (\<exists>Q. fst (generate_random_queries E n b d seed G) = Inr Q
         \<and> dim0 Q = nat n \<and> dim1 Q = nat b \<and> dim2 Q = nat d
         \<and> length (data Q) = nat n * nat b * nat d
         \<and> (n = 0 \<or> b = 0 \<or> d = 0 \<longrightarrow> data Q = [])))"
proof -
  have neg: "(\<exists>e. fst (generate_random_queries E n b d seed G) = Inl e)
      \<and> (seed_accepted E seed \<longrightarrow>
            fst (generate_random_queries E n b d seed G) = Inl RuntimeError)"
    if "n < 0 \<or> b < 0 \<or> d < 0"
  proof -
    note rej = torch_rand_rejected[OF negative_not_drawable[OF that]]
    show ?thesis
    proof (cases seed)
      case None
      then show ?thesis by (simp add: unseeded_call rej)
    next
      case (Some s)
      then show ?thesis
        by (cases "manual_seed_state E s")
          (simp_all add: generate_random_queries_def torch_manual_seed_def rej seed_accepted_def)
    qed
  qed
  have ok: "\<exists>Q. fst (generate_random_queries E n b d seed G) = Inr Q
         \<and> dim0 Q = nat n \<and> dim1 Q = nat b \<and> dim2 Q = nat d
         \<and> length (data Q) = nat n * nat b * nat d
         \<and> (n = 0 \<or> b = 0 \<or> d = 0 \<longrightarrow> data Q = [])"
    if dr: "drawable (capacity E) n b d" and acc: "seed_accepted E seed"
  proof -
    define Q where "Q g = \<lparr>dim0 = nat n, dim1 = nat b, dim2 = nat d,
        data = fst (draws (uniform_step E) (nat n * nat b * nat d) g)\<rparr>" for g
    have shape: "dim0 (Q g) = nat n \<and> dim1 (Q g) = nat b \<and> dim2 (Q g) = nat d
         \<and> length (data (Q g)) = nat n * nat b * nat d
         \<and> (n = 0 \<or> b = 0 \<or> d = 0 \<longrightarrow> data (Q g) = [])" for g
    proof -
      have len: "length (data (Q g)) = nat n * nat b * nat d"
        by (simp add: Q_def draws_length)
      have "data (Q g) = []" if "n = 0 \<or> b = 0 \<or> d = 0"
        using len that by auto
      then show ?thesis using len by (simp add: Q_def)
    qed
    have "\<exists>g. fst (generate_random_queries E n b d seed G) = Inr (Q g)"
    proof (cases seed)
      case None
      then have "fst (generate_random_queries E n b d seed G) = Inr (Q (default_gen G))"
        by (simp add: unseeded_call torch_rand_drawable[OF dr] Q_def)
      then show ?thesis by blast
    next
      case (Some s)
      with acc obtain g1 where "manual_seed_state E s = Inr g1"
        by (cases "manual_seed_state E s") (simp_all add: seed_accepted_def)
      then have "fst (generate_random_queries E n b d seed G) = Inr (Q g1)"
        using Some by (simp add: seeded_call_drawable[OF dr] Q_def)
      then show ?thesis by blast
    qed
    then show ?thesis using shape by blast
  qed
  show ?thesis using neg ok by blast
qed

theorem negative_size_fails_witness:
  "fst (generate_random_queries lcg_engine (-1) 2 3 None lcg_generators) = Inl RuntimeError
   \<and> fst (generate_random_queries lcg_engine (-1) 2 3 (Some 42) lcg_generators) = Inl RuntimeError
   \<and> fst (generate_random_queries lcg_engine 2 0 3 (Some 42) lcg_generators) =
       Inr \<lparr>dim0 = 2, dim1 = 0, dim2 = 3, data = []\<rparr>"
proof -
  note A = negative_size_fails[where n = "-1" and b = 2 and d = 3 and E = lcg_engine
      and seed = None and G = lcg_generators]
  note B = negative_size_fails[where n = "-1" and b = 2 and d = 3 and E = lcg_engine
      and seed = "Some 42" and G = lcg_generators]
  note C = negative_size_fails[where n = 2 and b = 0 and d = 3 and E = lcg_engine
      and seed = "Some 42" and G = lcg_generators]
  have acc: "seed_accepted lcg_engine None" "seed_accepted lcg_engine (Some 42)"
    by (simp_all add: seed_accepted_def lcg_engine_def)
  have dr: "drawable (capacity lcg_engine) 2 0 3"
    by (simp add: drawable_def)
  from A acc(1) have a: "fst (generate_random_queries lcg_engine (-1) 2 3 None lcg_generators) =
      Inl RuntimeError"
    by simp
  from B acc(2) have b: "fst (generate_random_queries lcg_engine (-1) 2 3 (Some 42) lcg_generators) =
      Inl RuntimeError"
    by simp
  from C dr acc(2) obtain Q where
    Q: "fst (generate_random_queries lcg_engine 2 0 3 (Some 42) lcg_generators) = Inr Q"
      "dim0 Q = nat 2" "dim1 Q = nat 0" "dim2 Q = nat 3" "data Q = []"
    by auto
  then have "Q = \<lparr>dim0 = 2, dim1 = 0, dim2 = 3, data = []\<rparr>"
    by (cases Q) simp
  with Q(1) have c: "fst (generate_random_queries lcg_engine 2 0 3 (Some 42) lcg_generators) =
       Inr \<lparr>dim0 = 2, dim1 = 0, dim2 = 3, data = []\<rparr>"
    by simp
  show ?thesis using a b c by (intro conjI)
qed

section \<open>The candidate optimizer\<close>

lemma in_bounds_iff:
  "in_bounds bnds xs \<longleftrightarrow>
     (\<forall>t<length xs. entry bnds 0 (t mod ncols bnds) \<le> xs ! t
        \<and> xs ! t \<le> entry bnds 1 (t mod ncols bnds))"
  by (simp add: in_bounds_def list_all_length)

lemma in_bounds_block:
  assumes "in_bounds bnds xs" and "m = n * ncols bnds" and "k * m + m \<le> length xs"
  shows "in_bounds bnds (take m (drop (k * m) xs))"
  unfolding in_bounds_iff
proof (intro allI impI)
  fix t assume "t < length (take m (drop (k * m) xs))"
  then have t: "t < m" by simp
  then have lt: "k * m + t < length xs" using assms(3) by simp
  have nth: "take m (drop (k * m) xs) ! t = xs ! (k * m + t)"
    using t lt by simp
  have "k * m + t = t + (k * n) * ncols bnds" using assms(2) by simp
  then have md: "(k * m + t) mod ncols bnds = t mod ncols bnds"
    by (simp only: mod_mult_self1)
  from assms(1) lt have "entry bnds 0 ((k * m + t) mod ncols bnds) \<le> xs ! (k * m + t)
        \<and> xs ! (k * m + t) \<le> entry bnds 1 ((k * m + t) mod ncols bnds)"
    unfolding in_bounds_iff by blast
  then show "entry bnds 0 (t mod ncols bnds) \<le> take m (drop (k * m) xs) ! t
        \<and> take m (drop (k * m) xs) ! t \<le> entry bnds 1 (t mod ncols bnds)"
    unfolding nth md .
qed

lemma block_length:
  assumes "length xs = r * m" and "k < r"
  shows "k * m + m \<le> length xs"
proof -
  have "Suc k * m \<le> r * m" using assms(2) by (intro mult_le_mono1) simp
  then show ?thesis using assms(1) by simp
qed

text \<open>
  Claim C9, as stated, at bounds of shape \<open>(2, 0)\<close>: the optimizer is asked for
  \<open>4 * 0 = 0\<close> restarts, returns what its contract asks for, candidates of shape
  \<open>(0, q, 0)\<close> and no values, and the function fails on the arg-max of no values instead
  of returning a best candidate batch.
\<close>

theorem suggested_query_counterexample:
  "ramp_optimizer
     \<lparr>acq_function = (), bounds = no_dimension, q = 2,
      num_restarts = 4 * ncols no_dimension, raw_samples = 120 * ncols no_dimension,
      batch_limit = Some 4, init_batch_limit = Some 20, maxiter = 100,
      nonnegative = False, options_method = ''L-BFGS-B'', return_best_only = False\<rparr> =
     Inr (\<lparr>payload = \<lparr>dim0 = 0, dim1 = 2, dim2 = 0, data = []\<rparr>, requires_grad = True\<rparr>, [])
   \<and> meets_contract
     \<lparr>acq_function = (), bounds = no_dimension, q = 2,
      num_restarts = 4 * ncols no_dimension, raw_samples = 120 * ncols no_dimension,
      batch_limit = Some 4, init_batch_limit = Some 20, maxiter = 100,
      nonnegative = False, options_method = ''L-BFGS-B'', return_best_only = False\<rparr>
     (\<lparr>payload = \<lparr>dim0 = 0, dim1 = 2, dim2 = 0, data = []\<rparr>, requires_grad = True\<rparr>, [])
   \<and> optimize_acqf_and_get_suggested_query ramp_optimizer () no_dimension 2 (Some 4) (Some 20) =
     Inl IndexError"
  by (simp add: ramp_optimizer_def no_dimension_def meets_contract_def in_bounds_def
      optimize_acqf_and_get_suggested_query_def detach_def print_diagnostics_def
      get_best_candidates_def torch_argmax_def)

text \<open>
  Claim C9, amended. For bounds of shape \<open>(2, input_dim)\<close> with \<open>input_dim \<ge> 1\<close> and a
  batch size \<open>q\<close>, the function calls the multi-start optimizer with
  \<open>num_restarts = 4 * input_dim\<close>, \<open>raw_samples = 120 * input_dim\<close> and
  \<^verbatim>\<open>return_best_only=False\<close>; when that call returns and meets the optimizer's contract,
  the function returns the candidate batch of the restart at the first arg-max of the
  acquisition values: an array of shape \<open>(q, input_dim)\<close> whose entry \<open>(i, j)\<close> is the
  value \<open>(best, i, j)\<close> of the candidates, with every value within the bounds and
  outside of gradient tracking.
\<close>

theorem suggested_query_best_candidate:
  assumes "0 < ncols bnds"
    and "optimize_acqf
           \<lparr>acq_function = acq_func, bounds = bnds, q = batch_size,
            num_restarts = 4 * ncols bnds, raw_samples = 120 * ncols bnds,
            batch_limit = batch_lim, init_batch_limit = init_batch_lim, maxiter = 100,
            nonnegative = False, options_method = ''L-BFGS-B'',
            return_best_only = False\<rparr> = Inr result"
    and "meets_contract
           \<lparr>acq_function = acq_func, bounds = bnds, q = batch_size,
            num_restarts = 4 * ncols bnds, raw_samples = 120 * ncols bnds,
            batch_limit = batch_lim, init_batch_limit = init_batch_lim, maxiter = 100,
            nonnegative = False, options_method = ''L-BFGS-B'',
            return_best_only = False\<rparr> result"
  shows "\<exists>x best.
      optimize_acqf_and_get_suggested_query optimize_acqf acq_func bnds batch_size
        batch_lim init_batch_lim = Inr x
    \<and> \<not> requires_grad x
    \<and> int (nrows (payload x)) = batch_size \<and> ncols (payload x) = ncols bnds
    \<and> length (elems (payload x)) = nrows (payload x) * ncols (payload x)
    \<and> in_bounds bnds (elems (payload x))
    \<and> is_first_argmax (snd result) best
    \<and> (\<forall>i<nrows (payload x). \<forall>j<ncols bnds.
          entry (payload x) i j =
            data (payload (fst result)) ! ((best * nrows (payload x) + i) * ncols bnds + j))"
proof -
  obtain candidates acq_values where result: "result = (candidates, acq_values)"
    by (cases result)
  define c where "c = payload candidates"
  define m where "m = dim1 c * dim2 c"
  from assms(3) have d0: "dim0 c = 4 * ncols bnds" and d1: "int (dim1 c) = batch_size"
    and d2: "dim2 c = ncols bnds" and len: "length (data c) = dim0 c * m"
    and lv: "length acq_values = 4 * ncols bnds" and inb: "in_bounds bnds (data c)"
    by (simp_all add: meets_contract_def result c_def m_def)
  from lv assms(1) have "acq_values \<noteq> []" by auto
  from torch_argmax_first[OF this] obtain best where
    best: "torch_argmax acq_values = Inr best" "is_first_argmax acq_values best"
    by blast
  then have bl: "best < dim0 c" using lv d0 by (simp add: is_first_argmax_iff)
  define x where "x = \<lparr>nrows = dim1 c, ncols = dim2 c, elems = take m (drop (best * m) (data c))\<rparr>"
  have sel: "select0 c best = Inr x"
    using bl by (simp add: select0_def x_def m_def)
  have diag: "print_diagnostics c acq_values = Inr ()"
    using lv d0 by (simp add: print_diagnostics_def)
  have call: "optimize_acqf_and_get_suggested_query optimize_acqf acq_func bnds batch_size
        batch_lim init_batch_lim = Inr \<lparr>payload = x, requires_grad = False\<rparr>"
    using assms(2) best(1) sel diag
    by (simp add: optimize_acqf_and_get_suggested_query_def Let_def result detach_def
        get_best_candidates_def c_def)
  have blk: "best * m + m \<le> length (data c)" using len bl by (rule block_length)
  then have lx: "length (elems x) = nrows x * ncols x"
    by (simp add: x_def m_def)
  have "m = dim1 c * ncols bnds" by (simp add: m_def d2)
  from in_bounds_block[OF inb this blk] have ix: "in_bounds bnds (elems x)"
    by (simp add: x_def)
  have ent: "entry x i j = data c ! ((best * nrows x + i) * ncols bnds + j)"
    if "i < nrows x" "j < ncols bnds" for i j
  proof -
    have "i < dim1 c" "j < dim2 c" using that by (simp_all add: x_def d2)
    then have lt: "i * dim2 c + j < m" unfolding m_def by (rule flat_index_less)
    then have "best * m + (i * dim2 c + j) < length (data c)" using blk by simp
    with lt have "take m (drop (best * m) (data c)) ! (i * dim2 c + j) =
        data c ! (best * m + (i * dim2 c + j))"
      by simp
    also have "best * m + (i * dim2 c + j) = (best * dim1 c + i) * dim2 c + j"
      by (simp add: m_def add_mult_distrib mult.assoc)
    finally have "take m (drop (best * m) (data c)) ! (i * dim2 c + j) =
        data c ! ((best * dim1 c + i) * dim2 c + j)" .
    then show ?thesis
      unfolding entry_def x_def d2 by simp
  qed
  define r where "r = \<lparr>payload = x, requires_grad = False\<rparr>"
  have "\<not> requires_grad r" "int (nrows (payload r)) = batch_size"
    "ncols (payload r) = ncols bnds"
    "length (elems (payload r)) = nrows (payload r) * ncols (payload r)"
    "in_bounds bnds (elems (payload r))"
    "is_first_argmax (snd result) best"
    using d1 d2 lx ix best(2) by (simp_all add: r_def x_def result)
  moreover have "\<forall>i<nrows (payload r). \<forall>j<ncols bnds.
          entry (payload r) i j =
            data (payload (fst result)) ! ((best * nrows (payload r) + i) * ncols bnds + j)"
    using ent by (simp add: r_def result c_def)
  moreover have "optimize_acqf_and_get_suggested_query optimize_acqf acq_func bnds batch_size
        batch_lim init_batch_lim = Inr r"
    using call by (simp add: r_def)
  ultimately show ?thesis by blast
qed


theorem suggested_query_best_candidate_witness:
  "optimize_acqf_and_get_suggested_query ramp_optimizer () interval_0_10 2 (Some 4) (Some 20) =
     Inr \<lparr>payload = \<lparr>nrows = 2, ncols = 1, elems = [2, 3]\<rparr>, requires_grad = False\<rparr>"
proof -
  define args :: "(int, unit) optimize_acqf_args" where
    "args = \<lparr>acq_function = (), bounds = interval_0_10, q = 2,
            num_restarts = 4 * ncols interval_0_10, raw_samples = 120 * ncols interval_0_10,
            batch_limit = Some 4, init_batch_limit = Some 20, maxiter = 100,
            nonnegative = False, options_method = ''L-BFGS-B'',
            return_best_only = False\<rparr>"
  define result :: "int tensor3 variable \<times> int list" where
    "result = (\<lparr>payload = \<lparr>dim0 = 4, dim1 = 2, dim2 = 1, data = [0, 1, 2, 3, 4, 5, 6, 7]\<rparr>,
                requires_grad = True\<rparr>, [2, 3, 0, 1])"
  have four: "[0..<4] = [0, 1, 2, 3]" by (simp add: upt_rec)
  have eight: "[0..<8] = [0, 1, 2, 3, 4, 5, 6, 7]" by (simp add: upt_rec)
  have nc: "ncols interval_0_10 = 1" by (simp add: interval_0_10_def)
  have h1: "0 < ncols interval_0_10" by (simp add: nc)
  have h2: "ramp_optimizer args = Inr result"
    by (simp add: ramp_optimizer_def args_def result_def nc four eight)
  have "in_bounds interval_0_10 [0, 1, 2, 3, 4, 5, 6, 7]"
    by (simp add: in_bounds_def interval_0_10_def entry_def eight)
  then have h3: "meets_contract args result"
    by (simp add: meets_contract_def args_def result_def nc)
  from suggested_query_best_candidate[where optimize_acqf = ramp_optimizer
      and bnds = interval_0_10 and acq_func = "()" and batch_size = 2 and batch_lim = "Some 4"
      and init_batch_lim = "Some 20" and result = result,
      OF h1 h2[unfolded args_def] h3[unfolded args_def]]
  obtain x best where
    x: "optimize_acqf_and_get_suggested_query ramp_optimizer () interval_0_10 2 (Some 4) (Some 20) = Inr x"
    and g: "\<not> requires_grad x"
    and nr: "int (nrows (payload x)) = 2" and ncx: "ncols (payload x) = ncols interval_0_10"
    and len: "length (elems (payload x)) = nrows (payload x) * ncols (payload x)"
    and b: "is_first_argmax (snd result) best"
    and ent: "\<forall>i<nrows (payload x). \<forall>j<ncols interval_0_10.
          entry (payload x) i j =
            data (payload (fst result)) ! ((best * nrows (payload x) + i) * ncols interval_0_10 + j)"
    by blast
  from b have best: "best = 1"
    by (auto simp: is_first_argmax_iff result_def nth_Cons less_Suc_eq numeral_eq_Suc
        split: nat.splits)
  from nr have nr2: "nrows (payload x) = 2" by simp
  from ent[rule_format, of 0 0] have e0: "elems (payload x) ! 0 = 2"
    by (simp add: nr2 nc ncx best entry_def result_def)
  from ent[rule_format, of 1 0] have e1: "elems (payload x) ! 1 = 3"
    by (simp add: nr2 nc ncx best entry_def result_def)
  from len have l2: "length (elems (payload x)) = 2" by (simp add: nr2 ncx nc)
  have "elems (payload x) = [2, 3]"
  proof (rule nth_equalityI)
    show "length (elems (payload x)) = length [2, 3 :: int]" using l2 by simp
  next
    fix k assume "k < length (elems (payload x))"
    then have "k = 0 \<or> k = 1" using l2 by auto
    then show "elems (payload x) ! k = [2, 3] ! k" using e0 e1 by auto
  qed
  then have "payload x = \<lparr>nrows = 2, ncols = 1, elems = [2, 3]\<rparr>"
    using nr2 ncx nc by (cases "payload x") simp
  with g have "x = \<lparr>payload = \<lparr>nrows = 2, ncols = 1, elems = [2, 3]\<rparr>, requires_grad = False\<rparr>"
    by (cases x) simp
  with x show ?thesis by simp
qed

end
